theory Spec2Isabelle
  imports Main "HOL-Library.Word"
begin

section \<open>The simulator state\<close>

text \<open>
  The class \<open>Simulator\<close> of \<open>src/index.ts\<close> keeps seven registers in a
  \<open>Uint8Array(7)\<close> and the memory in a \<open>Uint8Array(2 ** 16)\<close>. Every store into
  a typed array reduces the number modulo 256, which is \<open>word_of_int\<close> at type
  \<open>8 word\<close>. JavaScript numbers are \<open>int\<close> here: every number the modelled
  paths compute is an integer far below \<open>2 ^ 31\<close>, where the 32-bit operators
  \<open>&\<close>, \<open>|\<close>, \<open>^\<close>, \<open><<\<close> agree with \<open>and\<close>, \<open>or\<close>, \<open>xor\<close>,
  \<open>push_bit\<close> on \<open>int\<close>.
\<close>

type_synonym uint8 = "8 word"

record cpu =
  pcl :: uint8   \<comment> \<open>registers[0], low byte of the program counter\<close>
  pch :: uint8   \<comment> \<open>registers[1], high byte of the program counter\<close>
  ac :: uint8    \<comment> \<open>registers[2]\<close>
  xr :: uint8    \<comment> \<open>registers[3], the field \<open>#x\<close>\<close>
  yr :: uint8    \<comment> \<open>registers[4], the field \<open>#y\<close>\<close>
  sr :: uint8    \<comment> \<open>registers[5], NV-BDIZC\<close>
  sp :: uint8    \<comment> \<open>registers[6]\<close>
  mem :: "int \<Rightarrow> uint8"   \<comment> \<open>\<open>#mem\<close>; only the indices 0 .. 65535 exist\<close>
  cycle :: int

text \<open>
  What the modelled code can raise. \<open>RangeError\<close> is thrown by
  \<open>TypedArray.prototype.set\<close>, \<open>TypeError\<close> by calling a missing entry of
  \<open>ops\<close>. \<open>UndefinedValue\<close> marks the places where the source reads outside a
  typed array and goes on computing with \<open>undefined\<close>; the embedding stops there.
\<close>

datatype fault = RangeError | TypeError | UndefinedValue

definition seq :: "fault + 'a \<Rightarrow> ('a \<Rightarrow> fault + 'b) \<Rightarrow> fault + 'b" where
  "seq r f = (case r of Inl e \<Rightarrow> Inl e | Inr v \<Rightarrow> f v)"

text \<open>The constructor: \<open>#sp = 0xFF\<close>, everything else zero.\<close>

definition init :: cpu where
  "init = \<lparr>pcl = 0, pch = 0, ac = 0, xr = 0, yr = 0, sr = 0, sp = 0xFF,
           mem = (\<lambda>_. 0), cycle = 0\<rparr>"

subsection \<open>Program counter\<close>

definition get_pc :: "cpu \<Rightarrow> int" where
  "get_pc s = or (push_bit 8 (uint (pch s))) (uint (pcl s))"

definition set_pc :: "int \<Rightarrow> cpu \<Rightarrow> cpu" where
  "set_pc v s = s\<lparr>pcl := word_of_int (and v 0xFF), pch := word_of_int (drop_bit 8 v)\<rparr>"

subsection \<open>Status flags\<close>

text \<open>Each setter takes a number and tests it for truthiness.\<close>

definition get_carry :: "cpu \<Rightarrow> int" where
  "get_carry s = uint (and (sr s) 0x01)"

definition set_carry :: "int \<Rightarrow> cpu \<Rightarrow> cpu" where
  "set_carry v s = (if v \<noteq> 0 then s\<lparr>sr := or (sr s) 0x01\<rparr> else s\<lparr>sr := and (sr s) 0xFE\<rparr>)"

definition get_zero :: "cpu \<Rightarrow> int" where
  "get_zero s = uint (and (sr s) 0x02)"

definition set_zero :: "int \<Rightarrow> cpu \<Rightarrow> cpu" where
  "set_zero v s = (if v \<noteq> 0 then s\<lparr>sr := or (sr s) 0x02\<rparr> else s\<lparr>sr := and (sr s) 0xFD\<rparr>)"

definition get_overflow :: "cpu \<Rightarrow> int" where
  "get_overflow s = uint (and (sr s) 0x40)"

definition set_overflow :: "int \<Rightarrow> cpu \<Rightarrow> cpu" where
  "set_overflow v s = (if v \<noteq> 0 then s\<lparr>sr := or (sr s) 0x40\<rparr> else s\<lparr>sr := and (sr s) 0xBF\<rparr>)"

definition get_negative :: "cpu \<Rightarrow> int" where
  "get_negative s = uint (and (sr s) 0x80)"

definition set_negative :: "int \<Rightarrow> cpu \<Rightarrow> cpu" where
  "set_negative v s = (if v \<noteq> 0 then s\<lparr>sr := or (sr s) 0x80\<rparr> else s\<lparr>sr := and (sr s) 0x7F\<rparr>)"

subsection \<open>Memory\<close>

text \<open>
  \<open>get(ll, hh = 0, offset = 0)\<close> reads \<open>#mem[hh << 8 | ll + offset]\<close>. In
  JavaScript \<open>+\<close> binds tighter than \<open><<\<close>, which binds tighter than \<open>|\<close>:
  the index is \<open>(hh << 8) | (ll + offset)\<close>. An index outside the array reads
  \<open>undefined\<close>; a store there is dropped.
\<close>

definition mem_index :: "int \<Rightarrow> int \<Rightarrow> int \<Rightarrow> int" where
  "mem_index ll hh offset = or (push_bit 8 hh) (ll + offset)"

definition get :: "cpu \<Rightarrow> int \<Rightarrow> int \<Rightarrow> int \<Rightarrow> fault + int" where
  "get s ll hh offset =
     (let i = mem_index ll hh offset
      in if 0 \<le> i \<and> i < 65536 then Inr (uint (mem s i)) else Inl UndefinedValue)"

definition set_mem :: "int \<Rightarrow> int \<Rightarrow> int \<Rightarrow> int \<Rightarrow> cpu \<Rightarrow> cpu" where
  "set_mem ll hh offset val s =
     (let i = mem_index ll hh offset
      in if 0 \<le> i \<and> i < 65536 then s\<lparr>mem := (mem s)(i := word_of_int val)\<rparr> else s)"

text \<open>
  \<open>pushStackValue\<close> stores at \<open>0x0100 | sp\<close> and then decrements \<open>sp\<close>
  (\<open>#sp--\<close> yields the old value); \<open>popStackValue\<close> increments first and reads
  through \<open>get(sp, 0x01)\<close>.
\<close>

definition pushStackValue :: "int \<Rightarrow> cpu \<Rightarrow> cpu" where
  "pushStackValue val s =
     (let i = or 0x0100 (uint (sp s))
      in s\<lparr>sp := sp s - 1, mem := (mem s)(i := word_of_int val)\<rparr>)"

definition popStackValue :: "cpu \<Rightarrow> fault + (int \<times> cpu)" where
  "popStackValue s =
     (let s1 = s\<lparr>sp := sp s + 1\<rparr>
      in seq (get s1 (uint (sp s1)) 0x01 0) (\<lambda>v. Inr (v, s1)))"

subsection \<open>Flag hints\<close>

text \<open>
  \<open>OperationProduct\<close>: \<open>result\<close> is always there, the flags default to
  \<open>undefined\<close> (falsy), and \<open>before\<close>, \<open>after\<close>, \<open>byte\<close> are read as
  \<open>x ?? 0\<close>.
\<close>

record product =
  result :: int
  isOverflow :: bool
  isZero :: bool
  isNegative :: bool
  isCarry :: bool
  isSetter :: bool
  before :: "int option"
  after :: "int option"
  byte :: "int option"

definition product0 :: "int \<Rightarrow> product" where
  "product0 r = \<lparr>result = r, isOverflow = False, isZero = False, isNegative = False,
                  isCarry = False, isSetter = False, before = None, after = None, byte = None\<rparr>"

definition nullish :: "int option \<Rightarrow> int" where
  "nullish v = (case v of None \<Rightarrow> 0 | Some n \<Rightarrow> n)"

definition afterOperationActions :: "product \<Rightarrow> cpu \<Rightarrow> cpu" where
  "afterOperationActions p s =
     (let s1 = (if isNegative p then set_negative (and (nullish (after p)) 0x80) s else s);
          s2 = (if isZero p then set_zero (if nullish (after p) = 0 then 1 else 0) s1 else s1);
          s3 = (if isCarry p then set_carry (if 0xFF < result p then 1 else 0) s2 else s2)
      in if isOverflow p
         then (let beforeSign = and (nullish (before p)) 0x80;
                   byteSign = and (nullish (byte p)) 0x80;
                   afterSign = and (nullish (after p)) 0x80
               in set_overflow
                    (if and beforeSign byteSign \<noteq> 0 \<and> xor afterSign beforeSign \<noteq> 0
                     then 1 else 0) s3)
         else s3)"

section \<open>Operations with an operand byte\<close>

text \<open>
  The \<open>operation\<close> closures handed to \<open>#addOperationWithByte\<close>, one equation
  per mnemonic. An assignment expression such as \<open>after: this.#y = result\<close> has the
  value of its right-hand side, not of what the typed array stored; \<open>after: this.#ac\<close>
  after a store reads the stored byte back. BIT returns nothing.
\<close>

datatype mnemonic =
  ADC | AND | BIT | CMP | CPX | CPY | EOR | LDA | LDX | LDY | ORA | SBC | STA | STX | STY

fun operation :: "mnemonic \<Rightarrow> int \<Rightarrow> cpu \<Rightarrow> cpu \<times> product option" where
  "operation ADC b s =
     (let bef = uint (ac s);
          res = uint (ac s) + b + get_carry s;
          s1 = s\<lparr>ac := word_of_int res\<rparr>
      in (s1, Some ((product0 res)\<lparr>isNegative := True, isZero := True, isCarry := True,
            isOverflow := True, before := Some bef, after := Some (uint (ac s1)),
            byte := Some b\<rparr>)))"
| "operation AND b s =
     (let bef = uint (ac s);
          res = and (uint (ac s)) b;
          s1 = s\<lparr>ac := word_of_int (and (uint (ac s)) b)\<rparr>
      in (s1, Some ((product0 res)\<lparr>isNegative := True, isZero := True,
            before := Some bef, after := Some (uint (ac s1)), byte := Some b\<rparr>)))"
| "operation BIT b s =
     (let s1 = set_zero (and (uint (ac s)) b) s;
          s2 = (if and b 0x80 \<noteq> 0 then s1\<lparr>sr := or (sr s1) 0x80\<rparr>
                else s1\<lparr>sr := and (sr s1) 0x7F\<rparr>);
          s3 = (if and b 0x02 \<noteq> 0 then s2\<lparr>sr := or (sr s2) 0x02\<rparr>
                else s2\<lparr>sr := and (sr s2) 0xFD\<rparr>)
      in (s3, None))"
| "operation CMP b s =
     (let bef = uint (ac s);
          res = uint (ac s) - b;
          s1 = s\<lparr>ac := word_of_int res\<rparr>
      in (s1, Some ((product0 res)\<lparr>isNegative := True, isZero := True, isCarry := True,
            before := Some bef, after := Some (uint (ac s1)), byte := Some b\<rparr>)))"
| "operation CPX b s =
     (let bef = uint (xr s);
          res = uint (xr s) - b;
          s1 = s\<lparr>xr := word_of_int res\<rparr>
      in (s1, Some ((product0 res)\<lparr>isNegative := True, isZero := True, isCarry := True,
            before := Some bef, after := Some (uint (xr s1)), byte := Some b\<rparr>)))"
| "operation CPY b s =
     (let bef = uint (yr s);
          res = uint (yr s) - b;
          s1 = s\<lparr>yr := word_of_int res\<rparr>
      in (s1, Some ((product0 res)\<lparr>isNegative := True, isZero := True, isCarry := True,
            before := Some bef, after := Some res, byte := Some b\<rparr>)))"
| "operation EOR b s =
     (let bef = uint (ac s);
          res = xor (uint (ac s)) b;
          s1 = s\<lparr>ac := word_of_int res\<rparr>
      in (s1, Some ((product0 res)\<lparr>isNegative := True, isZero := True,
            before := Some bef, after := Some res, byte := Some b\<rparr>)))"
| "operation LDA b s =
     (let bef = uint (ac s);
          s1 = s\<lparr>ac := word_of_int b\<rparr>
      in (s1, Some ((product0 b)\<lparr>isNegative := True, isZero := True,
            before := Some bef, after := Some b, byte := Some b\<rparr>)))"
| "operation LDX b s =
     (let bef = uint (xr s);
          s1 = s\<lparr>xr := word_of_int b\<rparr>
      in (s1, Some ((product0 b)\<lparr>isNegative := True, isZero := True,
            before := Some bef, after := Some b, byte := Some b\<rparr>)))"
| "operation LDY b s =
     (let bef = uint (yr s);
          s1 = s\<lparr>yr := word_of_int b\<rparr>
      in (s1, Some ((product0 b)\<lparr>isNegative := True, isZero := True,
            before := Some bef, after := Some b, byte := Some b\<rparr>)))"
| "operation ORA b s =
     (let bef = uint (ac s);
          res = or (uint (ac s)) b
      in (s, Some ((product0 res)\<lparr>isNegative := True, isZero := True, isSetter := True,
            before := Some bef, after := Some res, byte := Some b\<rparr>)))"
| "operation SBC b s =
     (let bef = uint (ac s);
          res = uint (ac s) - b - (1 - get_carry s);
          s1 = set_carry (if 0 \<le> res then 1 else 0) s;
          s2 = set_overflow
                 (if and (xor (uint (ac s1)) res) 0x80 \<noteq> 0 \<and> and (xor (uint (ac s1)) b) 0x80 \<noteq> 0
                  then 1 else 0) s1
      in (s2, Some ((product0 res)\<lparr>isNegative := True, isZero := True, isSetter := True,
            before := Some bef, after := Some (and res 0xFF), byte := Some b\<rparr>)))"
| "operation STA b s =
     (s, Some ((product0 (uint (ac s)))\<lparr>isSetter := True, before := Some (uint (ac s)),
            after := Some (uint (ac s))\<rparr>))"
| "operation STX b s =
     (s, Some ((product0 (uint (xr s)))\<lparr>isSetter := True, before := Some (uint (xr s)),
            after := Some (uint (xr s))\<rparr>))"
| "operation STY b s =
     (s, Some ((product0 (uint (yr s)))\<lparr>isSetter := True, before := Some (uint (yr s)),
            after := Some (uint (yr s))\<rparr>))"

section \<open>Addressing modes\<close>

text \<open>
  \<open>#addOperationWithByte\<close> registers one handler for every opcode field the
  specification object carries. Each handler counts the instruction, fetches the operand
  byte through \<open>get\<close>, runs the operation, returns early when there is no product,
  applies the flag hints and, for a setter, stores \<open>product.result\<close>: into the
  accumulator in accumulator mode, into memory through \<open>set\<close> in the memory modes.
  The immediate handler has no setter branch.
\<close>

datatype mode =
  Accumulator | Immediate | Zeropage | ZeropageX | ZeropageY
  | Absolute | AbsoluteX | AbsoluteY | IndirectX | IndirectY

definition tick :: "cpu \<Rightarrow> cpu" where
  "tick s = s\<lparr>cycle := cycle s + 1\<rparr>"

definition with_product ::
  "cpu \<times> product option \<Rightarrow> (product \<Rightarrow> cpu \<Rightarrow> fault + cpu) \<Rightarrow> fault + cpu" where
  "with_product r setter =
     (case r of
        (s, None) \<Rightarrow> Inr s
      | (s, Some p) \<Rightarrow>
          (let s1 = afterOperationActions p s
           in if isSetter p then setter p s1 else Inr s1))"

fun handler ::
  "(int \<Rightarrow> cpu \<Rightarrow> cpu \<times> product option) \<Rightarrow> mode \<Rightarrow> int \<Rightarrow> int \<Rightarrow> cpu \<Rightarrow> fault + cpu" where
  "handler op Accumulator ll hh s =
     (let s1 = tick s
      in with_product (op (uint (ac s1)) s1) (\<lambda>p s2. Inr (s2\<lparr>ac := word_of_int (result p)\<rparr>)))"
| "handler op Immediate val hh s =
     (let s1 = tick s
      in with_product (op val s1) (\<lambda>p s2. Inr s2))"
| "handler op Zeropage ll hh s =
     (let s1 = tick s
      in seq (get s1 ll 0 0) (\<lambda>b.
         with_product (op b s1) (\<lambda>p s2. Inr (set_mem ll 0 0 (result p) s2))))"
| "handler op ZeropageX ll hh s =
     (let s1 = tick s
      in seq (get s1 ll 0 (uint (xr s1))) (\<lambda>b.
         with_product (op b s1) (\<lambda>p s2. Inr (set_mem ll 0 (uint (xr s2)) (result p) s2))))"
| "handler op ZeropageY ll hh s =
     (let s1 = tick s
      in seq (get s1 ll 0 (uint (yr s1))) (\<lambda>b.
         with_product (op b s1) (\<lambda>p s2. Inr (set_mem ll 0 (uint (yr s2)) (result p) s2))))"
| "handler op Absolute ll hh s =
     (let s1 = tick s
      in seq (get s1 ll hh 0) (\<lambda>b.
         with_product (op b s1) (\<lambda>p s2. Inr (set_mem ll hh 0 (result p) s2))))"
| "handler op AbsoluteX ll hh s =
     (let s1 = tick s
      in seq (get s1 ll hh (uint (xr s1))) (\<lambda>b.
         with_product (op b s1) (\<lambda>p s2. Inr (set_mem ll hh (uint (xr s2)) (result p) s2))))"
| "handler op AbsoluteY ll hh s =
     (let s1 = tick s
      in seq (get s1 ll hh (uint (yr s1))) (\<lambda>b.
         with_product (op b s1) (\<lambda>p s2. Inr (set_mem ll hh (uint (yr s2)) (result p) s2))))"
| "handler op IndirectX ll hh s =
     (let s1 = tick s
      in seq (get s1 ll 0 (uint (xr s1))) (\<lambda>lo.
         seq (get s1 ll 0 (uint (xr s1) + 1)) (\<lambda>hi.
         seq (get s1 lo hi 0) (\<lambda>b.
         with_product (op b s1) (\<lambda>p s2.
           seq (get s2 ll 0 (uint (xr s2))) (\<lambda>lo2.
           seq (get s2 ll 0 (uint (xr s2) + 1)) (\<lambda>hi2.
           Inr (set_mem lo2 hi2 0 (result p) s2))))))))"
| "handler op IndirectY ll hh s =
     (let s1 = tick s
      in seq (get s1 ll 0 0) (\<lambda>lo.
         seq (get s1 ll 0 1) (\<lambda>hi.
         seq (get s1 (lo + uint (yr s1)) hi 0) (\<lambda>b.
         with_product (op b s1) (\<lambda>p s2.
           seq (get s2 ll 0 0) (\<lambda>lo2.
           seq (get s2 ll 0 1) (\<lambda>hi2.
           Inr (set_mem lo2 hi2 (uint (yr s2)) (result p) s2))))))))"

text \<open>The opcode fields of the specification objects: which modes a mnemonic has.\<close>

fun codes :: "mnemonic \<Rightarrow> (mode \<times> int) list" where
  "codes ADC =
     [(Immediate, 0x69), (Zeropage, 0x65), (ZeropageX, 0x75), (Absolute, 0x6D),
      (AbsoluteX, 0x7D), (AbsoluteY, 0x79), (IndirectX, 0x61), (IndirectY, 0x71)]"
| "codes AND =
     [(Immediate, 0x29), (Zeropage, 0x25), (ZeropageX, 0x35), (Absolute, 0x2D),
      (AbsoluteX, 0x3D), (AbsoluteY, 0x39), (IndirectX, 0x21), (IndirectY, 0x31)]"
| "codes BIT =
     [(Zeropage, 0x24), (Absolute, 0x2C)]"
| "codes CMP =
     [(Immediate, 0xC9), (Zeropage, 0xC5), (ZeropageX, 0xD5), (Absolute, 0xCD),
      (AbsoluteX, 0xDD), (AbsoluteY, 0xD9), (IndirectX, 0xC1), (IndirectY, 0xD1)]"
| "codes CPX =
     [(Immediate, 0xE0), (Zeropage, 0xE4), (Absolute, 0xEC)]"
| "codes CPY =
     [(Immediate, 0xC0), (Zeropage, 0xC4), (Absolute, 0xCC)]"
| "codes EOR =
     [(Immediate, 0x49), (Zeropage, 0x45), (ZeropageX, 0x55), (Absolute, 0x4D),
      (AbsoluteX, 0x5D), (AbsoluteY, 0x59), (IndirectX, 0x41), (IndirectY, 0x51)]"
| "codes LDA =
     [(Immediate, 0xA9), (Zeropage, 0xA5), (ZeropageX, 0xB5), (Absolute, 0xAD),
      (AbsoluteX, 0xBD), (AbsoluteY, 0xB9), (IndirectX, 0xA1), (IndirectY, 0xB1)]"
| "codes LDX =
     [(Immediate, 0xA2), (Zeropage, 0xA6), (ZeropageY, 0xB6), (Absolute, 0xAE),
      (AbsoluteY, 0xBE)]"
| "codes LDY =
     [(Immediate, 0xA0), (Zeropage, 0xA4), (ZeropageX, 0xB4), (Absolute, 0xAC),
      (AbsoluteX, 0xBC)]"
| "codes ORA =
     [(Immediate, 0x09), (Zeropage, 0x05), (ZeropageX, 0x15), (Absolute, 0x0D),
      (AbsoluteX, 0x1D), (AbsoluteY, 0x19), (IndirectX, 0x01), (IndirectY, 0x11)]"
| "codes SBC =
     [(Immediate, 0xE9), (Zeropage, 0xE5), (ZeropageX, 0xF5), (Absolute, 0xED),
      (AbsoluteX, 0xFD), (AbsoluteY, 0xF9), (IndirectX, 0xE1), (IndirectY, 0xF1)]"
| "codes STA =
     [(Zeropage, 0x85), (ZeropageX, 0x95), (Absolute, 0x8D), (AbsoluteX, 0x9D),
      (AbsoluteY, 0x99), (IndirectX, 0x81), (IndirectY, 0x91)]"
| "codes STX =
     [(Zeropage, 0x86), (ZeropageY, 0x96), (Absolute, 0x8E)]"
| "codes STY =
     [(Zeropage, 0x84), (ZeropageX, 0x94), (Absolute, 0x8C)]"

definition opcode :: "mnemonic \<Rightarrow> mode \<Rightarrow> int option" where
  "opcode m md = map_of (codes m) md"

text \<open>
  \<open>exec m md ll hh\<close> is the call \<open>ops[c](ll, hh)\<close> for the opcode \<open>c\<close> of
  mnemonic \<open>m\<close> in mode \<open>md\<close>; a handler ignores the arguments it does not
  declare. Where the mnemonic has no such mode, \<open>ops\<close> has no entry and the
  call throws.
\<close>

definition exec :: "mnemonic \<Rightarrow> mode \<Rightarrow> int \<Rightarrow> int \<Rightarrow> cpu \<Rightarrow> fault + cpu" where
  "exec m md ll hh s =
     (case opcode m md of
        None \<Rightarrow> Inl TypeError
      | Some c \<Rightarrow> handler (operation m) md ll hh s)"

section \<open>Operations without an operand byte\<close>

text \<open>
  \<open>#addOperation\<close> wraps an operation: count the instruction, run it, and apply
  the flag hints when it returns a product. PHP, PLP, SEC and JMP return nothing.
\<close>

definition PHP :: "cpu \<Rightarrow> fault + cpu" where
  "PHP s = (let s1 = tick s in Inr (pushStackValue (uint (sr s1)) s1))"

definition PLP :: "cpu \<Rightarrow> fault + cpu" where
  "PLP s =
     (let s1 = tick s
      in seq (popStackValue s1) (\<lambda>(v, s2). Inr (s2\<lparr>sr := word_of_int v\<rparr>)))"

definition SEC :: "cpu \<Rightarrow> fault + cpu" where
  "SEC s = (let s1 = tick s in Inr (set_carry 1 s1))"

definition JMP :: "int \<Rightarrow> int \<Rightarrow> cpu \<Rightarrow> cpu" where
  "JMP ll hh s = (let s1 = tick s in set_pc (or (push_bit 8 hh) ll) s1)"

section \<open>Bulk memory access\<close>

text \<open>
  \<open>write_bytes\<close> is the method \<open>write(values, targetOffset)\<close>, that is \<open>#mem.set(values, targetOffset)\<close>:
  \<open>TypedArray.prototype.set\<close> throws a \<open>RangeError\<close>, before it stores anything,
  when the offset is negative or the source does not fit behind it; otherwise it stores
  the elements one after the other.
\<close>

fun store_bytes :: "int list \<Rightarrow> int \<Rightarrow> (int \<Rightarrow> uint8) \<Rightarrow> (int \<Rightarrow> uint8)" where
  "store_bytes [] t m = m"
| "store_bytes (v # vs) t m = store_bytes vs (t + 1) (m(t := word_of_int v))"

definition write_bytes :: "int list \<Rightarrow> int \<Rightarrow> cpu \<Rightarrow> fault + cpu" where
  "write_bytes values targetOffset s =
     (if targetOffset < 0 \<or> 65536 < targetOffset + int (length values) then Inl RangeError
      else Inr (s\<lparr>mem := store_bytes values targetOffset (mem s)\<rparr>))"

text \<open>
  \<open>fill(start, end, val)\<close> is \<open>#mem.fill(val, start, end)\<close>: a negative bound
  counts from the end, both bounds are clamped to the array.
\<close>

definition clamp_index :: "int \<Rightarrow> int" where
  "clamp_index i = (if i < 0 then max (65536 + i) 0 else min i 65536)"

definition fill :: "int \<Rightarrow> int \<Rightarrow> int \<Rightarrow> cpu \<Rightarrow> cpu" where
  "fill start end' val s =
     s\<lparr>mem := (\<lambda>a. if clamp_index start \<le> a \<and> a < clamp_index end' then word_of_int val
                    else mem s a)\<rparr>"

section \<open>The NSF runner\<close>

text \<open>
  \<open>Runner\<close> of \<open>src/main.tsx\<close>. The file is a \<open>Uint8Array\<close>; \<open>data[i]\<close>
  beyond its end is \<open>undefined\<close>.
\<close>

record runner =
  simulator :: cpu
  inited :: bool
  data :: "uint8 list option"

definition at :: "uint8 list \<Rightarrow> nat \<Rightarrow> fault + int" where
  "at d i = (if i < length d then Inr (uint (d ! i)) else Inl UndefinedValue)"

definition run :: "uint8 list \<Rightarrow> runner \<Rightarrow> fault + runner" where
  "run d r =
     seq (at d 7) (\<lambda>d7.
     let initialSong = d7 + 15 in
     seq (exec LDA Immediate (initialSong - 1) 0 (simulator r)) (\<lambda>s1.
     seq (at d 0x7A) (\<lambda>modeBits.
     seq (exec LDX Immediate (if and modeBits 0x80 \<noteq> 0 then 0x01 else 0x00) 0 s1) (\<lambda>s2.
     let s3 = fill 0x0000 0x0800 0 s2;
         s4 = fill 0x6000 0x8000 0 s3;
         s5 = fill 0x4000 0x4014 0 s4 in
     seq (write_bytes [0x0F] 0x4015 s5) (\<lambda>s6.
     let s7 = set_mem 0x17 0x40 0 0x40 s6 in
     seq (at d 8) (\<lambda>d8.
     seq (at d 9) (\<lambda>d9.
     let loadAddress = or d8 (push_bit 8 d9) in
     seq (at d 10) (\<lambda>d10.
     seq (at d 11) (\<lambda>d11.
     let s8 = JMP d10 d11 s7 in
     seq (write_bytes (map uint (drop 0x80 d)) loadAddress s8) (\<lambda>s9.
     Inr (r\<lparr>simulator := s9, data := Some d\<rparr>)))))))))))"

text \<open>
  The \<open>loadend\<close> listener of the file input: it returns without calling \<open>run\<close>
  unless the first four bytes spell \<open>NESM\<close>, and before \<open>run\<close> it calls
  \<open>toString\<close> on \<open>data[0x7A]\<close> and \<open>data[0x7B]\<close>, which throws a
  \<open>TypeError\<close> on \<open>undefined\<close>.
\<close>

definition loadend :: "uint8 list \<Rightarrow> runner \<Rightarrow> fault + runner" where
  "loadend d r =
     (if map uint (take 4 d) = [0x4E, 0x45, 0x53, 0x4D]
      then (if length d \<le> 0x7B then Inl TypeError else run d r)
      else Inr r)"

definition new_runner :: runner where
  "new_runner = \<lparr>simulator = init, inited = False, data = None\<rparr>"

section \<open>Programs and files to run the model on\<close>

text \<open>
  The tests of \<open>src/index.spec.ts\<close> chain calls on one simulator,
  \<open>new Simulator().write([0xA5], 0x3032).ops[0xA2](0x05).ops[0xA1](0x70)\<close>;
  \<open>steps\<close> is that chain, stopping at the first call that throws.
\<close>

fun steps :: "(cpu \<Rightarrow> fault + cpu) list \<Rightarrow> cpu \<Rightarrow> fault + cpu" where
  "steps [] s = Inr s"
| "steps (f # fs) s = seq (f s) (steps fs)"

text \<open>
  A 128-byte NSF header with the given starting song, load address and mode bits; init
  address \<open>0x8000\<close>, play address \<open>0x8003\<close>, everything else zero.
\<close>

definition nsf_header :: "uint8 \<Rightarrow> uint8 \<Rightarrow> uint8 \<Rightarrow> uint8 \<Rightarrow> uint8 list" where
  "nsf_header song lo hi modeBits =
     [0x4E, 0x45, 0x53, 0x4D, 0x1A, 0x01, 0x01, song, lo, hi, 0x00, 0x80, 0x03, 0x80]
     @ replicate 108 0 @ [modeBits] @ replicate 5 0"

section \<open>Properties\<close>

lemmas flag_defs =
  get_carry_def set_carry_def set_zero_def set_negative_def set_overflow_def

lemmas mode_defs =
  exec_def opcode_def tick_def with_product_def seq_def get_def set_mem_def mem_index_def
  product0_def Let_def

lemmas step_defs = mode_defs afterOperationActions_def nullish_def

lemmas test_defs = step_defs flag_defs init_def write_bytes_def SEC_def

subsection \<open>Indices stay inside the array\<close>

lemma or_below_65536:
  "0 \<le> a \<Longrightarrow> a < 65536 \<Longrightarrow> 0 \<le> b \<Longrightarrow> b < 65536 \<Longrightarrow> 0 \<le> or a b \<and> or a (b::int) < 65536"
  using OR_upper[of a 16 b] by simp

lemma uint8_below_256: "uint (w :: uint8) < 256"
  using uint_bounded[of w] by simp

lemma stack_index_in_range:
  "0 \<le> or 0x0100 (uint (w :: uint8)) \<and> or 0x0100 (uint w) < 65536"
  using or_below_65536[of 256 "uint w"] uint8_below_256[of w] by simp

lemma zeropage_index_in_range:
  "0 \<le> uint (zp :: uint8) + uint (i :: uint8) \<and> uint zp + uint i < 65536"
  using uint8_below_256[of zp] uint8_below_256[of i] by simp

lemma mem_index_in_range:
  assumes "0 \<le> hh" "hh < 256" "0 \<le> ll + off" "ll + off < 65536"
  shows "0 \<le> mem_index ll hh off \<and> mem_index ll hh off < 65536"
proof -
  have "push_bit 8 hh < (65536 :: int)" "0 \<le> push_bit 8 hh"
    using assms by (simp_all add: push_bit_eq_mult)
  then show ?thesis
    using or_below_65536[of "push_bit 8 hh" "ll + off"] assms by (simp add: mem_index_def)
qed

lemma get_defined:
  assumes "0 \<le> hh" "hh < 256" "0 \<le> ll + off" "ll + off < 65536"
  shows "get s ll hh off = Inr (uint (mem s (mem_index ll hh off)))"
  using mem_index_in_range[OF assms] by (simp add: get_def)

lemma with_product_defined:
  assumes "\<And>p s2. \<exists>s3. setter p s2 = Inr s3"
  shows "\<exists>s'. with_product r setter = Inr s'"
proof (cases r)
  case (Pair s1 po)
  then show ?thesis
    using assms by (cases po) (simp_all add: with_product_def Let_def)
qed

lemma get_byte_defined:
  fixes ll hh :: uint8
  assumes "0 \<le> k" "k \<le> 256"
  shows "\<exists>v :: uint8. get s (uint ll) (uint hh) k = Inr (uint v)"
  using get_defined[of "uint hh" "uint ll" k s] uint8_below_256[of ll] uint8_below_256[of hh] assms
  by auto

lemma get_zp_defined:
  fixes ll :: uint8
  assumes "0 \<le> k" "k \<le> 256"
  shows "\<exists>v :: uint8. get s (uint ll) 0 k = Inr (uint v)"
  using get_byte_defined[of k s ll 0] assms by simp

lemma handler_defined:
  fixes ll hh :: uint8
  shows "\<exists>s'. handler op md (uint ll) (uint hh) s = Inr s'"
proof (cases md)
  case Accumulator
  then show ?thesis by (simp add: Let_def with_product_defined)
next
  case Immediate
  then show ?thesis by (simp add: Let_def with_product_defined)
next
  case Zeropage
  obtain b :: uint8 where "get (tick s) (uint ll) 0 0 = Inr (uint b)"
    using get_zp_defined[of 0 "tick s" ll] by auto
  then show ?thesis using Zeropage by (simp add: Let_def seq_def with_product_defined)
next
  case ZeropageX
  obtain b :: uint8 where "get (tick s) (uint ll) 0 (uint (xr (tick s))) = Inr (uint b)"
    using get_zp_defined[of "uint (xr (tick s))" "tick s" ll] uint8_below_256[of "xr (tick s)"] by auto
  then show ?thesis using ZeropageX by (simp add: Let_def seq_def with_product_defined)
next
  case ZeropageY
  obtain b :: uint8 where "get (tick s) (uint ll) 0 (uint (yr (tick s))) = Inr (uint b)"
    using get_zp_defined[of "uint (yr (tick s))" "tick s" ll] uint8_below_256[of "yr (tick s)"] by auto
  then show ?thesis using ZeropageY by (simp add: Let_def seq_def with_product_defined)
next
  case Absolute
  obtain b :: uint8 where "get (tick s) (uint ll) (uint hh) 0 = Inr (uint b)"
    using get_byte_defined[of 0 "tick s" ll hh] by auto
  then show ?thesis using Absolute by (simp add: Let_def seq_def with_product_defined)
next
  case AbsoluteX
  obtain b :: uint8 where "get (tick s) (uint ll) (uint hh) (uint (xr (tick s))) = Inr (uint b)"
    using get_byte_defined[of "uint (xr (tick s))" "tick s" ll hh] uint8_below_256[of "xr (tick s)"] by auto
  then show ?thesis using AbsoluteX by (simp add: Let_def seq_def with_product_defined)
next
  case AbsoluteY
  obtain b :: uint8 where "get (tick s) (uint ll) (uint hh) (uint (yr (tick s))) = Inr (uint b)"
    using get_byte_defined[of "uint (yr (tick s))" "tick s" ll hh] uint8_below_256[of "yr (tick s)"] by auto
  then show ?thesis using AbsoluteY by (simp add: Let_def seq_def with_product_defined)
next
  case IndirectX
  have setter: "\<exists>s3. seq (get s2 (uint ll) 0 (uint (xr s2))) (\<lambda>lo2.
           seq (get s2 (uint ll) 0 (uint (xr s2) + 1)) (\<lambda>hi2.
           Inr (set_mem lo2 hi2 0 (result p) s2))) = Inr s3" for p s2
  proof -
    obtain lo :: uint8 where lo: "get s2 (uint ll) 0 (uint (xr s2)) = Inr (uint lo)"
      using get_zp_defined[of "uint (xr s2)" s2 ll] uint8_below_256[of "xr s2"] by auto
    obtain hi :: uint8 where hi: "get s2 (uint ll) 0 (uint (xr s2) + 1) = Inr (uint hi)"
      using get_zp_defined[of "uint (xr s2) + 1" s2 ll] uint8_below_256[of "xr s2"] by auto
    show ?thesis by (simp add: lo hi seq_def)
  qed
  obtain lo :: uint8 where lo: "get (tick s) (uint ll) 0 (uint (xr (tick s))) = Inr (uint lo)"
    using get_zp_defined[of "uint (xr (tick s))" "tick s" ll] uint8_below_256[of "xr (tick s)"] by auto
  obtain hi :: uint8 where hi: "get (tick s) (uint ll) 0 (uint (xr (tick s)) + 1) = Inr (uint hi)"
    using get_zp_defined[of "uint (xr (tick s)) + 1" "tick s" ll] uint8_below_256[of "xr (tick s)"] by auto
  obtain b :: uint8 where b: "get (tick s) (uint lo) (uint hi) 0 = Inr (uint b)"
    using get_byte_defined[of 0 "tick s" lo hi] by auto
  show ?thesis
    using IndirectX with_product_defined[of _ "op (uint b) (tick s)", OF setter]
    by (simp add: Let_def seq_def lo hi b)
next
  case IndirectY
  have setter: "\<exists>s3. seq (get s2 (uint ll) 0 0) (\<lambda>lo2.
           seq (get s2 (uint ll) 0 1) (\<lambda>hi2.
           Inr (set_mem lo2 hi2 (uint (yr s2)) (result p) s2))) = Inr s3" for p s2
  proof -
    obtain lo :: uint8 where lo: "get s2 (uint ll) 0 0 = Inr (uint lo)"
      using get_zp_defined[of 0 s2 ll] by auto
    obtain hi :: uint8 where hi: "get s2 (uint ll) 0 1 = Inr (uint hi)"
      using get_zp_defined[of 1 s2 ll] by auto
    show ?thesis by (simp add: lo hi seq_def)
  qed
  obtain lo :: uint8 where lo: "get (tick s) (uint ll) 0 0 = Inr (uint lo)"
    using get_zp_defined[of 0 "tick s" ll] by auto
  obtain hi :: uint8 where hi: "get (tick s) (uint ll) 0 1 = Inr (uint hi)"
    using get_zp_defined[of 1 "tick s" ll] by auto
  have "get (tick s) (uint lo + uint (yr (tick s))) (uint hi) 0
          = Inr (uint (mem (tick s) (mem_index (uint lo + uint (yr (tick s))) (uint hi) 0)))"
    using get_defined[of "uint hi" "uint lo + uint (yr (tick s))" 0 "tick s"]
      uint8_below_256[of lo] uint8_below_256[of hi] uint8_below_256[of "yr (tick s)"] by simp
  then obtain b :: uint8 where b: "get (tick s) (uint lo + uint (yr (tick s))) (uint hi) 0 = Inr (uint b)"
    by blast
  show ?thesis
    using IndirectY with_product_defined[of _ "op (uint b) (tick s)", OF setter]
    by (simp add: Let_def seq_def lo hi b)
qed

text \<open>
  So an instruction whose operand bytes and registers are bytes, as they are when
  \<open>Runner.step\<close> fetches the operands from memory, never reads outside the array.
\<close>

lemma exec_defined:
  fixes ll hh :: uint8
  assumes "opcode m md = Some c"
  shows "\<exists>s'. exec m md (uint ll) (uint hh) s = Inr s'"
  using assms handler_defined[of "operation m" md ll hh s] by (simp add: exec_def)

subsection \<open>What the flag hints leave alone\<close>

lemma afterOperationActions_frame [simp]:
  "ac (afterOperationActions p s) = ac s"
  "xr (afterOperationActions p s) = xr s"
  "yr (afterOperationActions p s) = yr s"
  "sp (afterOperationActions p s) = sp s"
  "mem (afterOperationActions p s) = mem s"
  "pcl (afterOperationActions p s) = pcl s"
  "pch (afterOperationActions p s) = pch s"
  "cycle (afterOperationActions p s) = cycle s"
  by (simp_all add: afterOperationActions_def flag_defs Let_def)

lemma setters_frame [simp]:
  "ac (set_carry v s) = ac s" "ac (set_zero v s) = ac s"
  "ac (set_overflow v s) = ac s" "ac (set_negative v s) = ac s"
  "mem (set_carry v s) = mem s" "mem (set_zero v s) = mem s"
  "mem (set_overflow v s) = mem s" "mem (set_negative v s) = mem s"
  by (simp_all add: flag_defs)

subsection \<open>The status register, bit by bit\<close>

lemma bit_set_flag:
  "k < 8 \<Longrightarrow> bit (or (w :: uint8) (2 ^ k)) n = (bit w n \<or> n = k)"
  by (auto simp add: bit_simps)

lemma bit_clear_flag:
  assumes "k < 8"
  shows "bit (and (w :: uint8) (255 - 2 ^ k)) n = (bit w n \<and> n \<noteq> k)"
proof -
  have "(255 - 2 ^ k :: uint8) = not (2 ^ k)"
    by (simp add: not_eq_complement)
  then show ?thesis
    using assms by (auto simp add: bit_simps dest: bit_imp_le_length)
qed

lemmas bit_flag_simps =
  bit_set_flag[of 0, simplified] bit_clear_flag[of 0, simplified]
  bit_set_flag[of 1, simplified] bit_clear_flag[of 1, simplified]
  bit_set_flag[of 6, simplified] bit_clear_flag[of 6, simplified]
  bit_set_flag[of 7, simplified] bit_clear_flag[of 7, simplified]

lemma bit_sr_set_carry:
  "bit (sr (set_carry v s)) n = (if n = 0 then v \<noteq> 0 else bit (sr s) n)"
  by (simp add: set_carry_def bit_flag_simps)

lemma bit_sr_set_zero:
  "bit (sr (set_zero v s)) n = (if n = 1 then v \<noteq> 0 else bit (sr s) n)"
  by (simp add: set_zero_def bit_flag_simps)

lemma bit_sr_set_overflow:
  "bit (sr (set_overflow v s)) n = (if n = 6 then v \<noteq> 0 else bit (sr s) n)"
  by (simp add: set_overflow_def bit_flag_simps)

lemma bit_sr_set_negative:
  "bit (sr (set_negative v s)) n = (if n = 7 then v \<noteq> 0 else bit (sr s) n)"
  by (simp add: set_negative_def bit_flag_simps)

lemma and_0x80_iff: "(and (x :: int) 0x80 \<noteq> 0) = bit x 7"
  using bit_iff_and_push_bit_not_eq_0[of x 7] by simp

lemma and_0x02_iff: "(and (x :: int) 0x02 \<noteq> 0) = bit x 1"
  using bit_iff_and_push_bit_not_eq_0[of x 1] by simp

lemma and_and_mask: "and (and a c) (and b c) = and (and a b) (c :: int)"
  by (rule bit_eqI) (auto simp add: bit_simps)

lemma xor_and_mask: "xor (and a c) (and b c) = and (xor a b) (c :: int)"
  by (rule bit_eqI) (auto simp add: bit_simps)

lemma word_of_int_and_uint:
  "word_of_int (and (uint (a :: uint8)) (uint (b :: uint8))) = and a b"
  by (simp add: word_and_def)

lemma word_of_int_xor_uint:
  "word_of_int (xor (uint (a :: uint8)) (uint (b :: uint8))) = xor a b"
  by (simp add: word_xor_def)

subsection \<open>Compare\<close>

text \<open>
  C1. The claim is that CMP, CPX and CPY leave the compared register as it was. The
  operations store the difference into it: after \<open>LDA #$05; CMP #$03\<close> the
  accumulator is 2, after \<open>LDX #$05; CPX #$03\<close> X is 2, and after
  \<open>LDY #$05; CPY #$03\<close> Y is 2.
\<close>

theorem compare_overwrites_register:
  "map_sum id ac (steps [exec LDA Immediate 0x05 0, exec CMP Immediate 0x03 0] init) = Inr 0x02
   \<and> map_sum id xr (steps [exec LDX Immediate 0x05 0, exec CPX Immediate 0x03 0] init) = Inr 0x02
   \<and> map_sum id yr (steps [exec LDY Immediate 0x05 0, exec CPY Immediate 0x03 0] init) = Inr 0x02"
  by (simp add: test_defs)

text \<open>In general the register ends as the difference modulo 256.\<close>

lemma CMP_immediate_register:
  "map_sum id ac (exec CMP Immediate v hh s) = Inr (ac s - word_of_int v)"
  "map_sum id xr (exec CPX Immediate v hh s) = Inr (xr s - word_of_int v)"
  "map_sum id yr (exec CPY Immediate v hh s) = Inr (yr s - word_of_int v)"
  by (simp_all add: mode_defs)

subsection \<open>Subtract with carry\<close>

text \<open>
  C2. The claim is that SBC leaves \<open>(A - M - (1 - C)) & 0xFF\<close> in the accumulator
  and does not touch the operand byte. The operation never assigns the accumulator; it
  marks its product as a setter, which the immediate handler ignores and the memory
  handlers store at the operand's address. After \<open>SEC; LDA #$05; SBC #$03\<close> the
  accumulator is still 5, and after \<open>SEC; LDA #$05; SBC $10\<close> with 3 at
  \<open>$0010\<close> the accumulator is 5 and \<open>$0010\<close> holds 2.
\<close>

theorem SBC_keeps_accumulator_and_overwrites_operand:
  "map_sum id ac (steps [SEC, exec LDA Immediate 0x05 0, exec SBC Immediate 0x03 0] init) = Inr 0x05
   \<and> map_sum id (\<lambda>s. (ac s, mem s 0x10))
         (steps [write_bytes [0x03] 0x0010, SEC, exec LDA Immediate 0x05 0,
                 exec SBC Zeropage 0x10 0] init) = Inr (0x05, 0x02)"
  by (simp add: test_defs)

lemma SBC_immediate_accumulator:
  "map_sum id ac (exec SBC Immediate v hh s) = Inr (ac s)"
  by (simp add: mode_defs flag_defs)

text \<open>The carry is what the claim says: set iff the raw difference is not negative.\<close>

lemma SBC_carry_flag:
  fixes m :: uint8
  shows "map_sum id (\<lambda>t. bit (sr t) 0) (exec SBC Immediate (uint m) hh s)
           = Inr (0 \<le> uint (ac s) - uint m - (1 - uint (and (sr s) 1)))"
  by (simp add: mode_defs afterOperationActions_def nullish_def get_carry_def
      bit_sr_set_zero bit_sr_set_negative bit_sr_set_overflow bit_sr_set_carry)

subsection \<open>Logical operations\<close>

text \<open>
  C3. The claim is that AND, ORA and EOR leave \<open>A op M\<close> in the accumulator and
  modify no memory. ORA, like SBC, never assigns the accumulator and returns a setter
  product: after \<open>LDA #$10; ORA #$01\<close> the accumulator is still \<open>0x10\<close>, and
  after \<open>LDA #$10; ORA $20\<close> with \<open>0x01\<close> at \<open>$0020\<close> the accumulator is
  \<open>0x10\<close> and \<open>$0020\<close> holds \<open>0x11\<close>.
\<close>

theorem ORA_keeps_accumulator_and_overwrites_operand:
  "map_sum id ac (steps [exec LDA Immediate 0x10 0, exec ORA Immediate 0x01 0] init) = Inr 0x10
   \<and> map_sum id (\<lambda>s. (ac s, mem s 0x20))
         (steps [write_bytes [0x01] 0x0020, exec LDA Immediate 0x10 0,
                 exec ORA Zeropage 0x20 0] init) = Inr (0x10, 0x11)"
  by (simp add: test_defs)

lemma ORA_immediate_accumulator:
  "map_sum id ac (exec ORA Immediate v hh s) = Inr (ac s)"
  by (simp add: mode_defs)

text \<open>
  AND and EOR do what the claim says: the accumulator is \<open>A op M\<close>, N is its bit 7,
  Z says whether it is zero, and memory is as it was.
\<close>

lemma AND_EOR_immediate:
  fixes m :: uint8
  shows "map_sum id (\<lambda>t. (ac t, bit (sr t) 7, bit (sr t) 1, mem t))
           (exec AND Immediate (uint m) hh s)
           = Inr (and (ac s) m, bit (and (ac s) m) 7, and (ac s) m = 0, mem s)"
    and "map_sum id (\<lambda>t. (ac t, bit (sr t) 7, bit (sr t) 1, mem t))
           (exec EOR Immediate (uint m) hh s)
           = Inr (xor (ac s) m, bit (xor (ac s) m) 7, xor (ac s) m = 0, mem s)"
  by (auto simp add: mode_defs afterOperationActions_def nullish_def word_of_int_and_uint
      word_of_int_xor_uint bit_sr_set_zero bit_sr_set_negative and_0x80_iff bit_simps uint_0_iff
      simp flip: uint_and uint_xor)

subsection \<open>Bit test\<close>

text \<open>
  C4. The claim is that BIT sets Z iff \<open>A & M = 0\<close>, N to bit 7 of M and V to bit 6
  of M. The operation sets Z when \<open>A & M\<close> is not zero, then overwrites Z with bit 1
  of M, and never writes V. With \<open>0x40\<close> at \<open>$0010\<close> and A = 0, \<open>BIT $10\<close>
  leaves SR = 0: Z and V are both clear where the claim has both set.
\<close>

theorem BIT_leaves_Z_and_V_clear:
  "map_sum id sr (steps [write_bytes [0x40] 0x0010, exec BIT Zeropage 0x10 0] init) = Inr 0x00"
  by (simp add: test_defs)

text \<open>
  In general N and Z end as bits 7 and 1 of the operand, whatever the accumulator
  holds, and V is left as it was.
\<close>

lemma BIT_flags:
  fixes zp :: uint8
  shows "map_sum id (\<lambda>t. (bit (sr t) 7, bit (sr t) 1, bit (sr t) 6))
           (exec BIT Zeropage (uint zp) hh s)
           = Inr (bit (mem s (uint zp)) 7, bit (mem s (uint zp)) 1, bit (sr s) 6)"
  using zeropage_index_in_range[of zp 0]
  by (simp add: mode_defs bit_sr_set_zero bit_flag_simps and_0x80_iff and_0x02_iff bit_simps)

subsection \<open>Add with carry\<close>

text \<open>
  C5. The claim is that ADC sets V iff the accumulator and the operand have the same
  sign and the result has the other one. \<open>#afterOperationActions\<close> tests
  \<open>beforeSign & byteSign\<close>, which is only true of two set sign bits: after
  \<open>LDA #$40; ADC #$40\<close> the accumulator is \<open>0x80\<close> and SR is \<open>0x80\<close>, N
  set and V clear.
\<close>

theorem ADC_positive_overflow_leaves_V_clear:
  "map_sum id (\<lambda>s. (ac s, sr s))
     (steps [exec LDA Immediate 0x40 0, exec ADC Immediate 0x40 0] init) = Inr (0x80, 0x80)"
  by (simp add: test_defs)

text \<open>
  In general V is set exactly when both sign bits are set and the sign bit of the sum is
  clear.
\<close>

lemma ADC_overflow_flag:
  fixes m :: uint8
  shows "map_sum id (\<lambda>t. (ac t, bit (sr t) 6)) (exec ADC Immediate (uint m) hh s)
           = Inr (ac s + m + and (sr s) 1,
                  bit (ac s) 7 \<and> bit m 7 \<and> \<not> bit (ac s + m + and (sr s) 1) 7)"
  by (auto simp add: mode_defs afterOperationActions_def nullish_def get_carry_def
      bit_sr_set_overflow and_and_mask xor_and_mask and_0x80_iff bit_simps)

subsection \<open>Indexed addressing\<close>

text \<open>
  C6. The claim is that Absolute,X, Absolute,Y and (Indirect),Y add the index to the
  16-bit base, so that base \<open>0x01FF\<close> with index 1 reaches \<open>0x0200\<close>. \<open>get\<close>
  computes \<open>hh << 8 | ll + offset\<close>: the carry out of \<open>ll + offset\<close> is or-ed
  onto bit 0 of \<open>hh\<close>, and is lost when that bit is set. With \<open>0xAA\<close> at
  \<open>$0100\<close> and \<open>0xBB\<close> at \<open>$0200\<close>, \<open>LDX #$01; LDA $01FF,X\<close> and
  \<open>LDY #$01; LDA $01FF,Y\<close> load \<open>0xAA\<close>, and so does \<open>LDY #$01; LDA ($70),Y\<close>
  with the pointer \<open>0x01FF\<close> at \<open>$0070\<close>.
\<close>

theorem indexed_carry_is_lost:
  "map_sum id ac
     (steps [write_bytes [0xAA] 0x0100, write_bytes [0xBB] 0x0200,
             exec LDX Immediate 0x01 0, exec LDA AbsoluteX 0xFF 0x01] init) = Inr 0xAA
   \<and> map_sum id ac
     (steps [write_bytes [0xAA] 0x0100, write_bytes [0xBB] 0x0200,
             exec LDY Immediate 0x01 0, exec LDA AbsoluteY 0xFF 0x01] init) = Inr 0xAA
   \<and> map_sum id ac
     (steps [write_bytes [0xAA] 0x0100, write_bytes [0xBB] 0x0200,
             write_bytes [0xFF, 0x01] 0x0070,
             exec LDY Immediate 0x01 0, exec LDA IndirectY 0x70 0] init) = Inr 0xAA"
  by (simp add: test_defs)

text \<open>In general the byte loaded is the one at \<open>(hh << 8) | (ll + X)\<close>.\<close>

lemma LDA_absoluteX_address:
  fixes ll hh :: uint8
  shows "map_sum id ac (exec LDA AbsoluteX (uint ll) (uint hh) s)
           = Inr (mem s (or (push_bit 8 (uint hh)) (uint ll + uint (xr s))))"
  using get_defined[of "uint hh" "uint ll" "uint (xr s)" "tick s"]
    uint8_below_256[of ll] uint8_below_256[of hh] uint8_below_256[of "xr s"]
  by (simp add: exec_def opcode_def with_product_def seq_def product0_def Let_def)
    (simp add: tick_def mem_index_def)

subsection \<open>Zero-page indexed addressing\<close>

lemma get_zeropage_indexed:
  "get s (uint (zp :: uint8)) 0 (uint (i :: uint8)) = Inr (uint (mem s (uint zp + uint i)))"
  using zeropage_index_in_range[of zp i] by (simp add: get_def mem_index_def)

lemma set_zeropage_indexed:
  "set_mem (uint (zp :: uint8)) 0 (uint (i :: uint8)) v s =
     s\<lparr>mem := (mem s)(uint zp + uint i := word_of_int v)\<rparr>"
  using zeropage_index_in_range[of zp i] by (simp add: set_mem_def mem_index_def)

text \<open>
  C7. The claim is that the effective address of Zero-page,X and Zero-page,Y is
  \<open>(zp + index) mod 256\<close>, so that no access reaches page 1. The handlers call
  \<open>get(ll, 0, index)\<close> and \<open>set(ll, 0, index, v)\<close>, which index memory with
  \<open>0 | ll + index\<close> and never reduce it to 8 bits. With \<open>0xBB\<close> at \<open>$0000\<close>
  and \<open>0xAA\<close> at \<open>$0100\<close>, \<open>LDX #$01; LDA $FF,X\<close> loads \<open>0xAA\<close>, the
  byte of page 1, and \<open>LDX #$01; LDA #$77; STA $FF,X\<close> stores at \<open>$0100\<close> and
  leaves \<open>$0000\<close> alone.
\<close>

theorem zeropage_indexed_reaches_page_1:
  "map_sum id ac
     (steps [write_bytes [0xBB] 0x0000, write_bytes [0xAA] 0x0100,
             exec LDX Immediate 0x01 0, exec LDA ZeropageX 0xFF 0] init) = Inr 0xAA
   \<and> map_sum id (\<lambda>s. (mem s 0x0000, mem s 0x0100))
     (steps [exec LDX Immediate 0x01 0, exec LDA Immediate 0x77 0,
             exec STA ZeropageX 0xFF 0] init) = Inr (0x00, 0x77)"
  by (simp add: test_defs)

text \<open>
  In general, whatever the operation, the Zero-page,X and Zero-page,Y handlers hand it
  the byte at \<open>zp + index\<close> and, for a setter, store the result at \<open>zp + index\<close>:
  the sum is not reduced modulo 256 and lies between 0 and \<open>0x01FE\<close>.
\<close>

lemma zeropage_indexed_handler:
  fixes zp :: uint8
  shows "handler op ZeropageX (uint zp) hh s =
           with_product (op (uint (mem s (uint zp + uint (xr s)))) (tick s))
             (\<lambda>p s2. Inr (s2\<lparr>mem := (mem s2)(uint zp + uint (xr s2) := word_of_int (result p))\<rparr>))"
    and "handler op ZeropageY (uint zp) hh s =
           with_product (op (uint (mem s (uint zp + uint (yr s)))) (tick s))
             (\<lambda>p s2. Inr (s2\<lparr>mem := (mem s2)(uint zp + uint (yr s2) := word_of_int (result p))\<rparr>))"
  by (simp_all add: Let_def seq_def get_zeropage_indexed set_zeropage_indexed tick_def)

lemma zeropage_indexed_sum_bounds:
  fixes zp i :: uint8
  shows "0 \<le> uint zp + uint i \<and> uint zp + uint i \<le> 0x01FE"
  using uint8_below_256[of zp] uint8_below_256[of i] by simp

subsection \<open>The stack\<close>

text \<open>
  C10. For every state, hence for every value of SR and SP, PHP followed by PLP both
  return normally, and afterwards SR is the byte it was before, all eight bits of it
  (B and the unused bit included), and SP is back at its original value.
\<close>

theorem PHP_PLP_restores_SR_and_SP:
  "\<exists>s1 s2. PHP s = Inr s1 \<and> PLP s1 = Inr s2 \<and> sr s2 = sr s \<and> sp s2 = sp s"
  using stack_index_in_range[of "sp s"]
  by (simp add: PHP_def PLP_def pushStackValue_def popStackValue_def get_def mem_index_def
      seq_def tick_def Let_def)

subsection \<open>Loading an NSF file\<close>

lemma length_nsf_header: "length (nsf_header song lo hi modeBits) = 128"
  by (simp add: nsf_header_def)

text \<open>
  C8. The claim is that after a load X is bit 0 of the mode byte and A is the starting
  song minus 1. \<open>run\<close> adds 15 to the starting song before it subtracts 1, and tests
  bit 7 of the mode byte. For a file with starting song 1, mode byte \<open>0x01\<close>, load
  address \<open>0x8000\<close> and the body \<open>0x60\<close>, the load succeeds with
  A = \<open>0x0F\<close> and X = 0, where the claim has A = 0 and X = 1.
\<close>

theorem load_sets_A_to_song_plus_14_and_X_from_bit_7:
  "map_sum id (\<lambda>r. (ac (simulator r), xr (simulator r), data r \<noteq> None))
     (loadend (nsf_header 0x01 0x00 0x80 0x01 @ [0x60]) new_runner) = Inr (0x0F, 0x00, True)"
  by (simp add: loadend_def run_def at_def nsf_header_def new_runner_def fill_def JMP_def
      set_pc_def nth_append test_defs)

subsection \<open>Writes past the end of memory\<close>

lemma store_bytes_at:
  "store_bytes vs t m a =
     (if t \<le> a \<and> a < t + int (length vs) then word_of_int (vs ! nat (a - t)) else m a)"
proof (induction vs arbitrary: t m)
  case Nil
  then show ?case by auto
next
  case (Cons v vs)
  have unroll: "store_bytes (v # vs) t m a = store_bytes vs (t + 1) (m(t := word_of_int v)) a"
    by simp
  show ?case
  proof (cases "t < a")
    case True
    then have "nat (a - t) = Suc (nat (a - (t + 1)))" by simp
    then show ?thesis using True by (simp add: unroll Cons.IH del: store_bytes.simps)
  next
    case False
    then show ?thesis by (simp add: unroll Cons.IH del: store_bytes.simps)
  qed
qed

text \<open>A write that fits stores its bytes at consecutive addresses and nothing else.\<close>

lemma write_bytes_in_range:
  assumes "0 \<le> t" and "t + int (length vs) \<le> 65536"
  shows "map_sum id mem (write_bytes vs t s)
           = Inr (\<lambda>a. if t \<le> a \<and> a < t + int (length vs) then word_of_int (vs ! nat (a - t))
                       else mem s a)"
  using assms by (simp add: write_bytes_def store_bytes_at fun_eq_iff)

lemma load_address_below_65536:
  "or (uint (lo :: uint8)) (push_bit 8 (uint (hi :: uint8))) < 65536"
  using or_below_65536[of "uint lo" "push_bit 8 (uint hi)"]
    uint8_below_256[of lo] uint8_below_256[of hi]
  by (simp add: push_bit_eq_mult)

text \<open>
  C9, as stated: a write that extends past \<open>0xFFFF\<close> wraps to \<open>0x0000\<close> rather
  than failing. Writing two bytes at \<open>0xFFFF\<close> throws.
\<close>

theorem write_past_end_does_not_wrap:
  "write_bytes [0x11, 0x22] 0xFFFF init = Inl RangeError"
  by (simp add: write_bytes_def)

text \<open>
  C9, amended. A write whose bytes extend past address \<open>0xFFFF\<close> does not wrap: it
  fails with a \<open>RangeError\<close>; in particular \<open>run\<close> fails with it at the copy of
  the body when load address plus body length exceeds \<open>0x10000\<close>.
\<close>

theorem write_past_end_raises_RangeError:
  "(65536 < t + int (length vs) \<longrightarrow> write_bytes vs t s = Inl RangeError)
   \<and> (65536 < or (uint (d ! 8)) (push_bit 8 (uint (d ! 9))) + int (length d - 0x80)
        \<longrightarrow> run d r = Inl RangeError)"
proof (intro conjI impI)
  assume "65536 < t + int (length vs)"
  then show "write_bytes vs t s = Inl RangeError"
    by (simp add: write_bytes_def)
next
  assume over: "65536 < or (uint (d ! 8)) (push_bit 8 (uint (d ! 9))) + int (length d - 0x80)"
  have len: "130 \<le> length d"
    using over load_address_below_65536[of "d ! 8" "d ! 9"] by linarith
  obtain s1 where s1: "exec LDA Immediate (uint (d ! 7) + 15 - 1) 0 (simulator r) = Inr s1"
    by (simp add: mode_defs)
  obtain s2 where s2:
    "exec LDX Immediate (if and (uint (d ! 0x7A)) 0x80 \<noteq> 0 then 0x01 else 0x00) 0 s1 = Inr s2"
    by (simp add: mode_defs)
  show "run d r = Inl RangeError"
    using len over s1 s2 by (simp add: run_def at_def seq_def Let_def write_bytes_def)
qed

theorem write_past_end_raises_RangeError_witness:
  "65536 < (0xFFFF :: int) + int (length [0x11, 0x22 :: int])
   \<and> write_bytes [0x11, 0x22] 0xFFFF init = Inl RangeError
   \<and> 65536 < or (uint ((nsf_header 0x01 0xFF 0xFF 0x00 @ [0x11, 0x22]) ! 8))
                 (push_bit 8 (uint ((nsf_header 0x01 0xFF 0xFF 0x00 @ [0x11, 0x22]) ! 9)))
             + int (length (nsf_header 0x01 0xFF 0xFF 0x00 @ [0x11, 0x22]) - 0x80)
   \<and> run (nsf_header 0x01 0xFF 0xFF 0x00 @ [0x11, 0x22]) new_runner = Inl RangeError"
  using write_past_end_raises_RangeError
    [of "0xFFFF" "[0x11, 0x22]" init "nsf_header 0x01 0xFF 0xFF 0x00 @ [0x11, 0x22]" new_runner]
  by (simp add: nsf_header_def)

end
